theory Spec2Isabelle
  imports Main
begin

section \<open>Project creation in the todos-app API\<close>

text \<open>
  A shallow embedding of \<^verbatim>\<open>ProjectsService.create\<close> and its helper
  \<^verbatim>\<open>updateTotalProjects\<close>
  (\<^verbatim>\<open>apps/api/src/features/projects/projects.service.ts\<close>) together with the
  \<^verbatim>\<open>Project\<close> schema (\<^verbatim>\<open>schema/project.schema.ts\<close>).

  The method is a sequence of awaited calls to collaborators (the users service, the
  Mongoose project model) inside one \<^verbatim>\<open>try\<close>/\<^verbatim>\<open>catch\<close>. The model passes the
  persistent state explicitly, returns an exception as \<open>Inl\<close>, and takes what each
  collaborator call does (succeed or throw, and which error) as a parameter.
  Logging is left out; \<^verbatim>\<open>totalProjects\<close> is an integer (the \<^verbatim>\<open>number\<close> of the
  source is used as a counter).
\<close>

subsection \<open>Enumerations\<close>

text \<open>
  The enum files are not among the sources; only the members the service and the schema
  name are known. A role other than the two the service names is \<open>OtherRole\<close>, a stage
  other than the schema's default is \<open>Stage\<close>. The members of \<^verbatim>\<open>EProjectTypes\<close> are
  strings (the schema stores them with \<^verbatim>\<open>type: String\<close>), taken to be non-empty, so a
  present \<^verbatim>\<open>projectType\<close> is truthy.
\<close>

datatype EProjectTypes = ROOT | SUB_PROJECT

datatype EProjectTypeBehavior = LEAFY | NORMAL

datatype EPremiumSubscribers = GUEST_USER | STANDARD_USER | OtherRole string

datatype EProjectStages = BACKLOG | Stage string

subsection \<open>Request, document and user\<close>

text \<open>
  \<^verbatim>\<open>CreateProjectDto\<close> is not among the sources; its fields are the creatable
  attributes of the schema class, each optional (an absent property is \<open>None\<close>).
  Object ids and dates are strings and integers.
\<close>

record CreateProjectDto =
  title :: "string option"
  description :: "string option"
  stages :: "string list option"
  iconsId :: "string option"
  projectType :: "EProjectTypes option"
  rootParentId :: "string option"
  dependsOn :: "string option"
  subParentId :: "string option"
  startAt :: "int option"
  endAt :: "int option"

text \<open>
  A stored document has the properties a request can set (the service copies them by
  key, \<^verbatim>\<open>foundProject[key] = value\<close>) and the ones only the schema sets. The last
  field, \<^verbatim>\<open>projectTypeBehavior\<close>, is what the database holds under that key, if
  anything: the data model of the specification has it, the schema class does not
  declare it (see \<open>readProjectTypeBehavior\<close> below for what the service sees of it).
  The identity \<^verbatim>\<open>_id\<close> is the key under which the store holds the document; the audit
  properties \<^verbatim>\<open>createdAt\<close>, \<^verbatim>\<open>updatedAt\<close> and \<^verbatim>\<open>__v\<close> are maintained by the
  persistence layer and are not modelled.
\<close>

record Project = CreateProjectDto +
  isEnabled :: bool
  totalSubProjects :: int
  totalProjectTodos :: int
  progressStage :: EProjectStages
  projectTypeBehavior :: "EProjectTypeBehavior option"

text \<open>The properties of \<^verbatim>\<open>IActiveUser\<close> that the service reads.\<close>

record IActiveUser =
  sub :: string
  baseRole :: EPremiumSubscribers
  totalProjects :: int

subsection \<open>Exceptions\<close>

text \<open>
  The exception classes the \<^verbatim>\<open>catch\<close> block tells apart with \<^verbatim>\<open>instanceof\<close>, the two
  the service throws besides them, and \<open>ErrorObject name code message keyValue\<close> for
  any other \<^verbatim>\<open>Error\<close> a collaborator throws (a driver error carries \<^verbatim>\<open>code\<close> and, for
  a duplicate key, \<^verbatim>\<open>keyValue\<close>).
\<close>

datatype Thrown =
    BadRequestException string
  | PaymentRequiredException string
  | NotFoundException string
  | ForbiddenException string
  | ConflictException string
  | InternalServerErrorException string
  | ErrorObject string "int option" string "(string \<times> string) list"

fun errorName :: "Thrown \<Rightarrow> string" where
  "errorName (BadRequestException m) = ''BadRequestException''"
| "errorName (PaymentRequiredException m) = ''PaymentRequiredException''"
| "errorName (NotFoundException m) = ''NotFoundException''"
| "errorName (ForbiddenException m) = ''ForbiddenException''"
| "errorName (ConflictException m) = ''ConflictException''"
| "errorName (InternalServerErrorException m) = ''InternalServerErrorException''"
| "errorName (ErrorObject n c m kv) = n"

fun errorCode :: "Thrown \<Rightarrow> int option" where
  "errorCode (ErrorObject n c m kv) = c"
| "errorCode e = None"

fun errorMessage :: "Thrown \<Rightarrow> string" where
  "errorMessage (BadRequestException m) = m"
| "errorMessage (PaymentRequiredException m) = m"
| "errorMessage (NotFoundException m) = m"
| "errorMessage (ForbiddenException m) = m"
| "errorMessage (ConflictException m) = m"
| "errorMessage (InternalServerErrorException m) = m"
| "errorMessage (ErrorObject n c m kv) = m"

fun errorKeyValue :: "Thrown \<Rightarrow> (string \<times> string) list" where
  "errorKeyValue (ErrorObject n c m kv) = kv"
| "errorKeyValue e = []"

subsection \<open>Persistent state and collaborators\<close>

text \<open>
  The state the request can touch: the \<^verbatim>\<open>totalProjects\<close> counter of each stored
  user, the project collection, the number of todos whose \<^verbatim>\<open>projectId\<close> is a given
  project (the schema's virtual \<^verbatim>\<open>tasks\<close> with \<^verbatim>\<open>count: true\<close>), and the log of the
  writes performed so far, in order.
\<close>

datatype Write =
    UserUpdate string int
  | ProjectSave string Project
  | ProjectInsert string Project

record Store =
  users :: "string \<rightharpoonup> int"
  projects :: "string \<rightharpoonup> Project"
  tasks :: "string \<Rightarrow> nat"
  writes :: "Write list"

text \<open>
  What the collaborators do during one request: for each awaited call, the error it
  throws (\<open>None\<close> when it succeeds), and the identity the store gives an inserted
  document.
\<close>

record Outcomes =
  reserveFault :: "Thrown option"
  findByIdFault :: "Thrown option"
  populateTasksFault :: "Thrown option"
  parentSaveFault :: "Thrown option"
  writeFault :: "Thrown option"
  newId :: string
  populateFault :: "Thrown option"
  rollbackFault :: "Thrown option"

text \<open>JavaScript truthiness of an optional string: absent and empty are falsy.\<close>

fun truthy :: "string option \<Rightarrow> bool" where
  "truthy None = False"
| "truthy (Some v) = (v \<noteq> [])"

text \<open>
  Modelled from the spec: \<^verbatim>\<open>UsersService.update\<close> is not among the sources. Section 6
  describes the call as a single-field counter update of the user, independent of the
  project write.
\<close>

definition userService_update ::
  "Thrown option \<Rightarrow> string \<Rightarrow> int \<Rightarrow> Store \<Rightarrow> Thrown + Store" where
  "userService_update fault uid n s =
     (case fault of
        Some e \<Rightarrow> Inl e
      | None \<Rightarrow> Inr (s\<lparr>users := (users s)(uid \<mapsto> n),
                         writes := writes s @ [UserUpdate uid n]\<rparr>))"

text \<open>
  Modelled from the spec: \<^verbatim>\<open>FactoryUtils.autoGenerateDuplicateMessage\<close> is not among
  the sources. Section 4.3 says the conflict is reported with a message identifying the
  duplicated field; the message names the keys of the error's \<^verbatim>\<open>keyValue\<close>, and is
  empty when the error carries none.
\<close>

definition autoGenerateDuplicateMessage :: "Thrown \<Rightarrow> string" where
  "autoGenerateDuplicateMessage error =
     (case errorKeyValue error of
        [] \<Rightarrow> []
      | kv # kvs \<Rightarrow> ''Duplicate value for field:'' @ concat (map (\<lambda>(k, v). CHR '' '' # k) (kv # kvs)))"

subsection \<open>The project model\<close>

text \<open>
  \<^verbatim>\<open>projectModel.create(dto)\<close> builds a document from the request and the schema's
  defaults (\<^verbatim>\<open>isEnabled\<close>, the two counters, \<^verbatim>\<open>progressStage\<close>, \<^verbatim>\<open>projectType\<close>).
\<close>

definition newDocument :: "CreateProjectDto \<Rightarrow> Project" where
  "newDocument dto =
     \<lparr> title = title dto,
       description = description dto,
       stages = stages dto,
       iconsId = iconsId dto,
       projectType = Some (case projectType dto of None \<Rightarrow> ROOT | Some t \<Rightarrow> t),
       rootParentId = rootParentId dto,
       dependsOn = dependsOn dto,
       subParentId = subParentId dto,
       startAt = startAt dto,
       endAt = endAt dto,
       isEnabled = True,
       totalSubProjects = 0,
       totalProjectTodos = 0,
       progressStage = BACKLOG,
       projectTypeBehavior = None \<rparr>"

text \<open>
  \<^verbatim>\<open>Object.entries(createProjectDto).forEach(([key, value]) => foundProject[key] = value)\<close>:
  every property the request has replaces the loaded document's; the others stay.
\<close>

fun orElse :: "'a option \<Rightarrow> 'a option \<Rightarrow> 'a option" where
  "orElse (Some v) old = Some v"
| "orElse None old = old"

definition assignEntries :: "CreateProjectDto \<Rightarrow> Project \<Rightarrow> Project" where
  "assignEntries dto foundProject =
     foundProject
       \<lparr> title := orElse (title dto) (title foundProject),
         description := orElse (description dto) (description foundProject),
         stages := orElse (stages dto) (stages foundProject),
         iconsId := orElse (iconsId dto) (iconsId foundProject),
         projectType := orElse (projectType dto) (projectType foundProject),
         rootParentId := orElse (rootParentId dto) (rootParentId foundProject),
         dependsOn := orElse (dependsOn dto) (dependsOn foundProject),
         subParentId := orElse (subParentId dto) (subParentId foundProject),
         startAt := orElse (startAt dto) (startAt foundProject),
         endAt := orElse (endAt dto) (endAt foundProject) \<rparr>"

text \<open>
  Inserting a document (\<^verbatim>\<open>projectModel.create\<close>, or \<^verbatim>\<open>save()\<close> of a document marked
  \<^verbatim>\<open>isNew\<close> whose identity was cleared): the write throws what the store reports, or
  the document is stored under a new identity. The store never gives an identity that
  is in use: it reports a duplicate key (code 11000) instead.
\<close>

definition insertDocument ::
  "Outcomes \<Rightarrow> Project \<Rightarrow> Store \<Rightarrow> (Thrown + string \<times> Project) \<times> Store" where
  "insertDocument oc doc s =
     (case writeFault oc of
        Some e \<Rightarrow> (Inl e, s)
      | None \<Rightarrow>
          (if projects s (newId oc) \<noteq> None
           then (Inl (ErrorObject ''MongoServerError'' (Some 11000)
                        ''E11000 duplicate key error'' [(''_id'', newId oc)]), s)
           else (Inr (newId oc, doc),
                 s\<lparr>projects := (projects s)(newId oc \<mapsto> doc),
                   writes := writes s @ [ProjectInsert (newId oc) doc]\<rparr>)))"

subsection \<open>The service\<close>

definition MAX_STANDARD_SUBSCRIBER_PROJECTS :: int where
  "MAX_STANDARD_SUBSCRIBER_PROJECTS = 12"

definition MAX_GUEST_SUBSCRIBER_PROJECTS :: int where
  "MAX_GUEST_SUBSCRIBER_PROJECTS = 3"

definition msgRootWithParent :: string where
  "msgRootWithParent = ''Looks like you are creating a new project? However your request includes dependencies to another project? Do you intend to create a sub-project?''"

definition msgSubWithoutParent :: string where
  "msgSubWithoutParent = ''A sub-project requires it's parent id''"

definition msgUpgrade :: string where
  "msgUpgrade = ''Please upgrade your account to enjoy more projects''"

definition msgReassignTasks :: string where
  "msgReassignTasks = ''The root project you are trying to associate this sub-projects have tasks associated at its root. Please, update all these tasks to associate them with either this sub-project or other relevant sub-projects & convert is to normal''"

definition msgCreated :: string where
  "msgCreated = ''A new project was successfully created''"

definition msgFailed :: string where
  "msgFailed = ''Failed to create a new project''"

definition msgServerFailed :: string where
  "msgServerFailed = ''Server failed to process your request, please try again later''"

text \<open>Lines 50 to 78: the two structural checks, in the source's order.\<close>

definition preflight :: "CreateProjectDto \<Rightarrow> Thrown option" where
  "preflight dto =
     (if (projectType dto = None \<or> projectType dto = Some ROOT) \<and>
         (truthy (rootParentId dto) \<or> truthy (subParentId dto))
      then Some (BadRequestException msgRootWithParent)
      else if projectType dto = Some SUB_PROJECT \<and> \<not> truthy (rootParentId dto)
      then Some (BadRequestException msgSubWithoutParent)
      else None)"

text \<open>Lines 81 to 106: the ceiling table and the check against it.\<close>

fun maxProjects :: "EPremiumSubscribers \<Rightarrow> int option" where
  "maxProjects GUEST_USER = Some MAX_GUEST_SUBSCRIBER_PROJECTS"
| "maxProjects STANDARD_USER = Some MAX_STANDARD_SUBSCRIBER_PROJECTS"
| "maxProjects (OtherRole r) = None"

definition quotaCheck :: "IActiveUser \<Rightarrow> Thrown option" where
  "quotaCheck activeUser =
     (let userSubscription = baseRole activeUser in
      if userSubscription = GUEST_USER \<or> userSubscription = STANDARD_USER
      then (let newTotalPr = totalProjects activeUser + 1 in
            case maxProjects userSubscription of
              Some ceiling \<Rightarrow>
                if newTotalPr > ceiling then Some (PaymentRequiredException msgUpgrade)
                else None
            | None \<Rightarrow> None)
      else None)"

text \<open>
  \<^verbatim>\<open>updateTotalProjects(totalProjects, activeUser, dto, add)\<close>: returns at once unless
  the request's \<^verbatim>\<open>projectType\<close> is \<^verbatim>\<open>ROOT\<close>.
\<close>

definition updateTotalProjects ::
  "Thrown option \<Rightarrow> int \<Rightarrow> IActiveUser \<Rightarrow> CreateProjectDto \<Rightarrow> bool \<Rightarrow> Store
     \<Rightarrow> Thrown + Store" where
  "updateTotalProjects fault totalPr activeUser dto add s =
     (if projectType dto \<noteq> Some ROOT then Inr s
      else userService_update fault (sub activeUser)
             (totalPr + (if add then 1 else 0)) s)"

text \<open>
  \<^verbatim>\<open>foundProject.projectTypeBehavior\<close> on a document the model loaded. The schema class
  of \<^verbatim>\<open>project.schema.ts\<close> declares no \<^verbatim>\<open>projectTypeBehavior\<close> and its options do not
  set \<^verbatim>\<open>strict: false\<close>, so the loaded document has no such property, whatever the
  database holds under that key: the read yields \<^verbatim>\<open>undefined\<close>. For the same reason
  an assignment to the property is not part of what \<^verbatim>\<open>save()\<close> persists.
\<close>

definition readProjectTypeBehavior :: "Project \<Rightarrow> EProjectTypeBehavior option" where
  "readProjectTypeBehavior foundProject = None"

text \<open>
  Lines 123 to 146: the parent lookup. The result is the advisory message, if one was
  set, and \<^verbatim>\<open>foundProject\<close>. In the branch for a parent without tasks the source
  assigns \<^verbatim>\<open>NORMAL\<close> to the undeclared property and saves: the save stores the
  document as it was loaded.
\<close>

definition resolveParent ::
  "Outcomes \<Rightarrow> CreateProjectDto \<Rightarrow> Store
     \<Rightarrow> (Thrown + string option \<times> Project option) \<times> Store" where
  "resolveParent oc dto s =
     (case rootParentId dto of
        None \<Rightarrow> (Inr (None, None), s)
      | Some pid \<Rightarrow>
          if pid = [] then (Inr (None, None), s)
          else
            (case findByIdFault oc of
               Some e \<Rightarrow> (Inl e, s)
             | None \<Rightarrow>
                 (case projects s pid of
                    None \<Rightarrow> (Inr (None, None), s)
                  | Some foundProject \<Rightarrow>
                      if readProjectTypeBehavior foundProject = Some LEAFY
                      then
                        (case populateTasksFault oc of
                           Some e \<Rightarrow> (Inl e, s)
                         | None \<Rightarrow>
                             if tasks s pid \<noteq> 0
                             then (Inr (Some msgReassignTasks, Some foundProject), s)
                             else
                               (case parentSaveFault oc of
                                  Some e \<Rightarrow> (Inl e, s)
                                | None \<Rightarrow>
                                    (Inr (None, Some foundProject),
                                     s\<lparr>projects := (projects s)(pid \<mapsto> foundProject),
                                       writes := writes s @ [ProjectSave pid foundProject]\<rparr>)))
                      else (Inr (None, Some foundProject), s))))"

text \<open>Lines 149 to 170: a new document, or the loaded one reused as a new document.\<close>

definition writeProject ::
  "Outcomes \<Rightarrow> CreateProjectDto \<Rightarrow> Project option \<Rightarrow> Store
     \<Rightarrow> (Thrown + string \<times> Project) \<times> Store" where
  "writeProject oc dto foundProject s =
     (case foundProject of
        None \<Rightarrow> insertDocument oc (newDocument dto) s
      | Some found \<Rightarrow> insertDocument oc (assignEntries dto found) s)"

record CreateResult =
  message :: string
  data :: "string \<times> Project"

text \<open>The body of the \<^verbatim>\<open>try\<close> block.\<close>

definition createTry ::
  "Outcomes \<Rightarrow> CreateProjectDto \<Rightarrow> IActiveUser \<Rightarrow> Store
     \<Rightarrow> (Thrown + CreateResult) \<times> Store" where
  "createTry oc dto activeUser s =
     (case preflight dto of
        Some e \<Rightarrow> (Inl e, s)
      | None \<Rightarrow>
     (case quotaCheck activeUser of
        Some e \<Rightarrow> (Inl e, s)
      | None \<Rightarrow>
     (case updateTotalProjects (reserveFault oc) (totalProjects activeUser)
             activeUser dto True s of
        Inl e \<Rightarrow> (Inl e, s)
      | Inr s1 \<Rightarrow>
     (case resolveParent oc dto s1 of
        (Inl e, s2) \<Rightarrow> (Inl e, s2)
      | (Inr (msg, foundProject), s2) \<Rightarrow>
     (case writeProject oc dto foundProject s2 of
        (Inl e, s3) \<Rightarrow> (Inl e, s3)
      | (Inr newProject, s3) \<Rightarrow>
     (case populateFault oc of
        Some e \<Rightarrow> (Inl e, s3)
      | None \<Rightarrow>
          (Inr \<lparr> message = (case msg of
                              None \<Rightarrow> msgCreated
                            | Some m \<Rightarrow> if m = [] then msgCreated else m),
                 data = newProject \<rparr>, s3)))))))"

text \<open>
  The \<^verbatim>\<open>catch\<close> block, branch by branch. An error thrown by the rollback inside it
  leaves the method as it is.
\<close>

definition createCatch ::
  "Outcomes \<Rightarrow> CreateProjectDto \<Rightarrow> IActiveUser \<Rightarrow> Thrown \<Rightarrow> Store
     \<Rightarrow> (Thrown + CreateResult) \<times> Store" where
  "createCatch oc dto activeUser error s =
     (case error of
        BadRequestException m \<Rightarrow> (Inl (BadRequestException m), s)
      | PaymentRequiredException m \<Rightarrow> (Inl (PaymentRequiredException m), s)
      | NotFoundException m \<Rightarrow> (Inl (NotFoundException msgFailed), s)
      | ForbiddenException m \<Rightarrow> (Inl (ForbiddenException msgFailed), s)
      | _ \<Rightarrow>
          if errorName error = ''Validations''
          then
            (case updateTotalProjects (rollbackFault oc) (totalProjects activeUser)
                    activeUser dto False s of
               Inl e \<Rightarrow> (Inl e, s)
             | Inr s' \<Rightarrow> (Inl (BadRequestException (errorMessage error)), s'))
          else if errorCode error = Some 11000
          then
            (case updateTotalProjects (rollbackFault oc) (totalProjects activeUser)
                    activeUser dto False s of
               Inl e \<Rightarrow> (Inl e, s)
             | Inr s' \<Rightarrow>
                 (let m = autoGenerateDuplicateMessage error in
                  (Inl (ConflictException (if m = [] then msgFailed else m)), s')))
          else (Inl (InternalServerErrorException msgServerFailed), s))"

definition create ::
  "Outcomes \<Rightarrow> CreateProjectDto \<Rightarrow> IActiveUser \<Rightarrow> Store
     \<Rightarrow> (Thrown + CreateResult) \<times> Store" where
  "create oc dto activeUser s =
     (case createTry oc dto activeUser s of
        (Inr r, s') \<Rightarrow> (Inr r, s')
      | (Inl error, s') \<Rightarrow> createCatch oc dto activeUser error s')"


subsection \<open>Writes of one request, and example data\<close>

text \<open>
  \<open>performed s s'\<close> is what a request that started in \<open>s\<close> and ended in \<open>s'\<close>
  appended to the write log. The remaining definitions are concrete requests, users and
  stores on which the theorems below are instantiated: a user \<^verbatim>\<open>u1\<close>, a stored root
  project \<^verbatim>\<open>p1\<close> marked \<open>LEAFY\<close> with \<open>k\<close> todos, and collaborators none of which
  throws.
\<close>

definition performed :: "Store \<Rightarrow> Store \<Rightarrow> Write list" where
  "performed s s' = drop (length (writes s)) (writes s')"

fun isUserUpdate :: "Write \<Rightarrow> bool" where
  "isUserUpdate (UserUpdate uid n) = True"
| "isUserUpdate w = False"

fun isProjectSave :: "Write \<Rightarrow> bool" where
  "isProjectSave (ProjectSave pid p) = True"
| "isProjectSave w = False"

definition noFaults :: "string \<Rightarrow> Outcomes" where
  "noFaults nid =
     \<lparr> reserveFault = None, findByIdFault = None, populateTasksFault = None,
       parentSaveFault = None, writeFault = None, newId = nid,
       populateFault = None, rollbackFault = None \<rparr>"

definition blankRequest :: CreateProjectDto where
  "blankRequest =
     \<lparr> title = None, description = None, stages = None, iconsId = None,
       projectType = None, rootParentId = None, dependsOn = None,
       subParentId = None, startAt = None, endAt = None \<rparr>"

definition rootRequest :: "string \<Rightarrow> CreateProjectDto" where
  "rootRequest t = blankRequest\<lparr>title := Some t, projectType := Some ROOT\<rparr>"

definition subRequest :: "string \<Rightarrow> string \<Rightarrow> CreateProjectDto" where
  "subRequest t pid =
     blankRequest\<lparr>title := Some t, projectType := Some SUB_PROJECT, rootParentId := Some pid\<rparr>"

definition leafyParent :: Project where
  "leafyParent =
     (newDocument (rootRequest ''Garden''))
       \<lparr>description := Some ''Vegetables'', projectTypeBehavior := Some LEAFY\<rparr>"

definition gardenStore :: "nat \<Rightarrow> int \<Rightarrow> Store" where
  "gardenStore k n =
     \<lparr> users = [''u1'' \<mapsto> n], projects = [''p1'' \<mapsto> leafyParent],
       tasks = (\<lambda>p. if p = ''p1'' then k else 0), writes = [] \<rparr>"

definition member :: "EPremiumSubscribers \<Rightarrow> int \<Rightarrow> IActiveUser" where
  "member r n = \<lparr> sub = ''u1'', baseRole = r, totalProjects = n \<rparr>"

text \<open>
  The driver's error for a violated unique index on \<^verbatim>\<open>title\<close> (the schema declares
  \<^verbatim>\<open>title\<close> with \<^verbatim>\<open>unique: true\<close>).
\<close>

definition duplicateTitle :: "string \<Rightarrow> Thrown" where
  "duplicateTitle t =
     ErrorObject ''MongoServerError'' (Some 11000) ''E11000 duplicate key error''
       [(''title'', t)]"


section \<open>Properties\<close>

subsection \<open>Auxiliary facts\<close>

lemmas service_defs =
  create_def createTry_def createCatch_def preflight_def quotaCheck_def
  updateTotalProjects_def userService_update_def resolveParent_def writeProject_def
  insertDocument_def autoGenerateDuplicateMessage_def
  MAX_GUEST_SUBSCRIBER_PROJECTS_def MAX_STANDARD_SUBSCRIBER_PROJECTS_def Let_def

lemmas example_defs =
  noFaults_def blankRequest_def rootRequest_def subRequest_def leafyParent_def
  gardenStore_def member_def newDocument_def assignEntries_def

lemma updateTotalProjects_not_root:
  "projectType dto \<noteq> Some ROOT \<Longrightarrow> updateTotalProjects f t u dto add s = Inr s"
  by (simp add: updateTotalProjects_def)

lemma createCatch_not_root:
  "projectType dto \<noteq> Some ROOT \<Longrightarrow> snd (createCatch oc dto u e s) = s"
  by (cases e) (simp_all add: createCatch_def updateTotalProjects_not_root Let_def)

lemma createCatch_throws: "\<exists>e'. fst (createCatch oc dto u e s) = Inl e'"
  by (cases e) (simp_all add: createCatch_def Let_def split: sum.splits)

lemma insertDocument_cases:
  "insertDocument oc doc s =
     (if writeFault oc = None \<and> projects s (newId oc) = None
      then (Inr (newId oc, doc),
            s\<lparr>projects := (projects s)(newId oc \<mapsto> doc),
              writes := writes s @ [ProjectInsert (newId oc) doc]\<rparr>)
      else (Inl (case writeFault oc of
                   Some e \<Rightarrow> e
                 | None \<Rightarrow> ErrorObject ''MongoServerError'' (Some 11000)
                             ''E11000 duplicate key error'' [(''_id'', newId oc)]), s))"
  by (simp add: insertDocument_def split: option.splits)

lemma resolveParent_users: "users (snd (resolveParent oc dto s)) = users s"
  by (simp add: resolveParent_def Let_def split: option.splits)

lemma writeProject_users: "users (snd (writeProject oc dto fp s)) = users s"
  by (simp add: writeProject_def insertDocument_cases split: option.splits)

lemma createTry_not_root_users:
  "projectType dto \<noteq> Some ROOT \<Longrightarrow> users (snd (createTry oc dto u s)) = users s"
  by (simp add: createTry_def updateTotalProjects_not_root split_beta
        writeProject_users resolveParent_users split: option.splits sum.splits)

lemma resolveParent_performed:
  "writes (snd (resolveParent oc dto s)) = writes s @ performed s (snd (resolveParent oc dto s))
   \<and> filter isUserUpdate (performed s (snd (resolveParent oc dto s))) = []"
  by (simp add: performed_def resolveParent_def Let_def split: option.splits)

lemma writeProject_performed:
  "writes (snd (writeProject oc dto fp s)) = writes s @ performed s (snd (writeProject oc dto fp s))
   \<and> filter isUserUpdate (performed s (snd (writeProject oc dto fp s))) = []"
  by (cases fp) (simp_all add: performed_def writeProject_def insertDocument_cases)

lemma performed_refl: "performed s s = []"
  by (simp add: performed_def)

lemma performed_trans:
  assumes "writes s1 = writes s @ performed s s1" and "writes s2 = writes s1 @ performed s1 s2"
  shows "performed s s2 = performed s s1 @ performed s1 s2"
proof -
  have whole: "writes s2 = writes s @ (performed s s1 @ performed s1 s2)"
    using assms by simp
  have "performed s s2 = drop (length (writes s)) (writes s2)"
    by (simp add: performed_def)
  also have "\<dots> = performed s s1 @ performed s1 s2"
    by (subst whole) simp
  finally show ?thesis .
qed

lemma createTry_not_root_writes:
  assumes "projectType dto \<noteq> Some ROOT"
  shows "filter isUserUpdate (performed s (snd (createTry oc dto u s))) = []"
proof -
  let ?s1 = "snd (resolveParent oc dto s)"
  have two: "filter isUserUpdate (performed s (snd (writeProject oc dto fp ?s1))) = []" for fp
    using performed_trans [of ?s1 s "snd (writeProject oc dto fp ?s1)"]
      resolveParent_performed [of oc dto s] writeProject_performed [of oc dto fp ?s1]
    by simp
  show ?thesis
    using assms
    by (simp add: createTry_def updateTotalProjects_not_root split_beta performed_refl
          resolveParent_performed two split: option.splits sum.splits)
qed

lemma preflight_sub_project:
  "projectType dto = Some SUB_PROJECT \<Longrightarrow> rootParentId dto = Some pid \<Longrightarrow> pid \<noteq> []
     \<Longrightarrow> preflight dto = None"
  by (simp add: preflight_def)

lemma create_not_root_store:
  "projectType dto \<noteq> Some ROOT \<Longrightarrow>
     snd (create oc dto activeUser s) = snd (createTry oc dto activeUser s)"
  by (cases "createTry oc dto activeUser s")
     (simp add: create_def createCatch_not_root split: sum.splits)

lemma create_returns_iff:
  "fst (create oc dto activeUser s) = Inr r \<longleftrightarrow> fst (createTry oc dto activeUser s) = Inr r"
proof (cases "createTry oc dto activeUser s")
  case (Pair res s')
  show ?thesis
  proof (cases res)
    case (Inl e)
    with Pair createCatch_throws [of oc dto activeUser e s'] show ?thesis
      by (auto simp add: create_def)
  next
    case (Inr r')
    with Pair show ?thesis by (simp add: create_def)
  qed
qed

lemma resolveParent_no_parent:
  "\<not> truthy (rootParentId dto) \<Longrightarrow> resolveParent oc dto s = (Inr (None, None), s)"
  by (cases "rootParentId dto") (simp_all add: resolveParent_def)

lemma quotaCheck_cases:
  "quotaCheck activeUser =
     (if \<exists>c. maxProjects (baseRole activeUser) = Some c \<and> totalProjects activeUser + 1 > c
      then Some (PaymentRequiredException msgUpgrade) else None)"
  by (cases "baseRole activeUser") (simp_all add: quotaCheck_def Let_def)

lemma createTry_root:
  assumes "projectType dto = Some ROOT" "\<not> truthy (rootParentId dto)"
    "\<not> truthy (subParentId dto)" "quotaCheck activeUser = None" "reserveFault oc = None"
    and total: "n = totalProjects activeUser + 1"
  shows "createTry oc dto activeUser s =
           (if writeFault oc = None \<and> projects s (newId oc) = None
            then (case populateFault oc of
                    None \<Rightarrow> Inr \<lparr>message = msgCreated, data = (newId oc, newDocument dto)\<rparr>
                  | Some e \<Rightarrow> Inl e,
                  s\<lparr>users := (users s)(sub activeUser \<mapsto> n),
                    projects := (projects s)(newId oc \<mapsto> newDocument dto),
                    writes := writes s @ [UserUpdate (sub activeUser) n,
                                          ProjectInsert (newId oc) (newDocument dto)]\<rparr>)
            else (Inl (case writeFault oc of
                         Some e \<Rightarrow> e
                       | None \<Rightarrow> ErrorObject ''MongoServerError'' (Some 11000)
                                   ''E11000 duplicate key error'' [(''_id'', newId oc)]),
                  s\<lparr>users := (users s)(sub activeUser \<mapsto> n),
                    writes := writes s @ [UserUpdate (sub activeUser) n]\<rparr>))"
  using assms
  by (auto simp add: createTry_def preflight_def updateTotalProjects_def
        userService_update_def resolveParent_no_parent writeProject_def
        insertDocument_cases split: option.splits)

lemma createCatch_writes:
  "\<exists>ws. writes (snd (createCatch oc dto activeUser e s)) = writes s @ ws"
  by (cases e)
     (simp_all add: createCatch_def updateTotalProjects_def userService_update_def Let_def
        split: option.splits)

lemma create_appends:
  "\<exists>ws. writes (snd (create oc dto activeUser s))
          = writes (snd (createTry oc dto activeUser s)) @ ws"
proof (cases "createTry oc dto activeUser s")
  case (Pair res s1)
  then show ?thesis
    using createCatch_writes [of oc dto activeUser _ s1]
    by (cases res) (simp_all add: create_def)
qed

text \<open>
  The validation branch of the \<^verbatim>\<open>catch\<close> block, for an error that does carry the name
  the branch compares with.
\<close>

lemma validations_named_error_compensated:
  assumes "projectType dto = Some ROOT" "\<not> truthy (rootParentId dto)"
    "\<not> truthy (subParentId dto)" "quotaCheck activeUser = None" "reserveFault oc = None"
    and invalid: "writeFault oc = Some (ErrorObject ''Validations'' c m kv)"
    and rollback: "rollbackFault oc = None"
    and sync: "users s (sub activeUser) = Some (totalProjects activeUser)"
  shows "fst (create oc dto activeUser s) = Inl (BadRequestException m)
       \<and> users (snd (create oc dto activeUser s)) = users s"
proof -
  have same: "(users s)(sub activeUser \<mapsto> totalProjects activeUser) = users s"
    using sync by (rule map_upd_triv)
  show ?thesis
    unfolding create_def createTry_root [OF assms(1-5) refl]
    using assms(1) invalid rollback
    by (simp add: createCatch_def updateTotalProjects_def userService_update_def same)
qed

lemma resolveParent_store: "snd (resolveParent oc dto s) = s"
  by (simp add: resolveParent_def readProjectTypeBehavior_def split: option.splits)

lemma resolveParent_never_advises:
  "fst (resolveParent oc dto s) = Inr (msg, found) \<Longrightarrow> msg = None"
  by (auto simp add: resolveParent_def readProjectTypeBehavior_def
        split: option.splits if_splits)

lemma resolveParent_found:
  assumes "rootParentId dto = Some pid" "pid \<noteq> []" "findByIdFault oc = None"
    "projects s pid = Some parent"
  shows "resolveParent oc dto s = (Inr (None, Some parent), s)"
  using assms by (simp add: resolveParent_def readProjectTypeBehavior_def)

lemma createTry_found:
  assumes "projectType dto = Some SUB_PROJECT" "rootParentId dto = Some pid" "pid \<noteq> []"
    "quotaCheck activeUser = None" "findByIdFault oc = None"
    "projects s pid = Some parent"
  shows "createTry oc dto activeUser s =
           (if writeFault oc = None \<and> projects s (newId oc) = None
            then (case populateFault oc of
                    None \<Rightarrow> Inr \<lparr>message = msgCreated,
                                  data = (newId oc, assignEntries dto parent)\<rparr>
                  | Some e \<Rightarrow> Inl e,
                  s\<lparr>projects := (projects s)(newId oc \<mapsto> assignEntries dto parent),
                    writes := writes s @ [ProjectInsert (newId oc) (assignEntries dto parent)]\<rparr>)
            else (Inl (case writeFault oc of
                         Some e \<Rightarrow> e
                       | None \<Rightarrow> ErrorObject ''MongoServerError'' (Some 11000)
                                   ''E11000 duplicate key error'' [(''_id'', newId oc)]), s))"
  using assms
  by (simp add: createTry_def preflight_sub_project updateTotalProjects_not_root
        resolveParent_found [where parent = parent] writeProject_def
        insertDocument_cases split: option.splits)

lemma createCatch_projects: "projects (snd (createCatch oc dto activeUser e s)) = projects s"
  by (cases e)
     (simp_all add: createCatch_def updateTotalProjects_def userService_update_def Let_def
        split: option.splits)

lemma create_never_advises:
  assumes "fst (create oc dto activeUser s) = Inr r"
  shows "message r = msgCreated"
proof -
  from assms have "fst (createTry oc dto activeUser s) = Inr r"
    by (simp add: create_returns_iff)
  then show ?thesis
    using resolveParent_never_advises
    by (fastforce simp add: createTry_def split_beta
          split: option.splits sum.splits if_splits)
qed

lemma writeProject_keeps:
  "projects s k = Some p \<Longrightarrow> projects (snd (writeProject oc dto found s)) k = Some p"
  by (cases found) (auto simp add: writeProject_def insertDocument_cases)

lemma updateTotalProjects_projects:
  "updateTotalProjects f t activeUser dto add s = Inr s1 \<Longrightarrow> projects s1 = projects s"
  by (auto simp add: updateTotalProjects_def userService_update_def
        split: if_splits option.splits)

lemma create_keeps_stored_projects:
  assumes "projects s k = Some p"
  shows "projects (snd (create oc dto activeUser s)) k = Some p"
proof -
  have body: "projects (snd (createTry oc dto activeUser s)) k = Some p"
    using assms updateTotalProjects_projects [of "reserveFault oc" "totalProjects activeUser"
        activeUser dto True s]
    by (auto simp add: createTry_def split_beta resolveParent_store writeProject_keeps
          split: option.splits sum.splits)
  show ?thesis
  proof (cases "createTry oc dto activeUser s")
    case (Pair res s1)
    with body show ?thesis
      by (cases res) (simp_all add: create_def createCatch_projects)
  qed
qed


subsection \<open>Quota\<close>

text \<open>
  C1. The claim: a request whose \<^verbatim>\<open>projectType\<close> is \<^verbatim>\<open>SUB_PROJECT\<close> is never
  rejected with the payment-required error, whatever the user's tier and counter.
  The ceiling check of lines 83 to 106 does not look at \<^verbatim>\<open>projectType\<close>; only
  \<^verbatim>\<open>updateTotalProjects\<close> does. A guest who already has three projects and asks for a
  sub-project of \<^verbatim>\<open>p1\<close> is rejected with the payment-required error, nothing written.
\<close>

theorem sub_project_rejected_by_ceiling:
  "create (noFaults ''n1'') (subRequest ''Beds'' ''p1'') (member GUEST_USER 3) (gardenStore 0 3)
     = (Inl (PaymentRequiredException msgUpgrade), gardenStore 0 3)"
  by (simp add: service_defs example_defs)

text \<open>
  C5. For a request whose \<^verbatim>\<open>projectType\<close> is \<^verbatim>\<open>ROOT\<close> and that passes the
  structural checks (no parent reference), the ceiling table is GUEST 3, STANDARD 12 and
  none for any other role; if \<open>totalProjects + 1\<close> exceeds the ceiling the request is
  rejected with the payment-required error and the state is unchanged; otherwise, when
  the users service accepts the update, the first write of the request sets the user's
  counter to \<open>totalProjects + 1\<close> and the request goes on, ending (when the insert and
  the final populate succeed) with the new document stored and the counter at
  \<open>totalProjects + 1\<close>. In particular a STANDARD user at 11 succeeds with the counter
  at 12, and the same request from that user at 12 is rejected.
\<close>

theorem root_quota_reservation:
  assumes "projectType dto = Some ROOT" "\<not> truthy (rootParentId dto)"
    "\<not> truthy (subParentId dto)"
  shows "(maxProjects GUEST_USER = Some 3 \<and> maxProjects STANDARD_USER = Some 12
          \<and> (\<forall>r. maxProjects (OtherRole r) = None))
       \<and> ((\<exists>c. maxProjects (baseRole activeUser) = Some c
                \<and> totalProjects activeUser + 1 > c) \<longrightarrow>
            create oc dto activeUser s = (Inl (PaymentRequiredException msgUpgrade), s))
       \<and> (\<not> (\<exists>c. maxProjects (baseRole activeUser) = Some c
                  \<and> totalProjects activeUser + 1 > c)
            \<and> reserveFault oc = None \<longrightarrow>
            (\<exists>ws. performed s (snd (create oc dto activeUser s))
                    = UserUpdate (sub activeUser) (totalProjects activeUser + 1) # ws)
          \<and> (writeFault oc = None \<and> projects s (newId oc) = None \<and> populateFault oc = None
               \<longrightarrow>
               create oc dto activeUser s =
                 (Inr \<lparr>message = msgCreated, data = (newId oc, newDocument dto)\<rparr>,
                  s\<lparr>users := (users s)(sub activeUser \<mapsto> totalProjects activeUser + 1),
                    projects := (projects s)(newId oc \<mapsto> newDocument dto),
                    writes := writes s @
                      [UserUpdate (sub activeUser) (totalProjects activeUser + 1),
                       ProjectInsert (newId oc) (newDocument dto)]\<rparr>)))
       \<and> (baseRole activeUser = STANDARD_USER \<and> totalProjects activeUser = 11
            \<and> reserveFault oc = None \<and> writeFault oc = None
            \<and> projects s (newId oc) = None \<and> populateFault oc = None \<longrightarrow>
            (\<exists>r. fst (create oc dto activeUser s) = Inr r)
          \<and> users (snd (create oc dto activeUser s)) (sub activeUser) = Some 12
          \<and> (\<forall>oc'. fst (create oc' dto (activeUser\<lparr>totalProjects := 12\<rparr>)
                           (snd (create oc dto activeUser s)))
                     = Inl (PaymentRequiredException msgUpgrade)))"
    (is "?table \<and> ?exceeded \<and> ?admitted \<and> ?example")
proof -
  have table: ?table
    by (simp add: MAX_GUEST_SUBSCRIBER_PROJECTS_def MAX_STANDARD_SUBSCRIBER_PROJECTS_def)
  have pre: "preflight dto = None"
    using assms by (simp add: preflight_def)
  have rejected: "create oc' dto u' s' = (Inl (PaymentRequiredException msgUpgrade), s')"
    if "\<exists>c. maxProjects (baseRole u') = Some c \<and> totalProjects u' + 1 > c"
    for oc' u' s'
    using that
    by (simp add: create_def createTry_def createCatch_def pre quotaCheck_cases)
  have exceeded: ?exceeded
    using rejected by blast
  have admitted: ?admitted
  proof (intro impI, elim conjE)
    assume under: "\<not> (\<exists>c. maxProjects (baseRole activeUser) = Some c
                          \<and> totalProjects activeUser + 1 > c)"
      and reserve: "reserveFault oc = None"
    from under have quota: "quotaCheck activeUser = None"
      by (simp add: quotaCheck_cases)
    note tryBody = createTry_root [OF assms quota reserve refl]
    have "\<exists>ws. writes (snd (createTry oc dto activeUser s))
                 = writes s @ UserUpdate (sub activeUser) (totalProjects activeUser + 1) # ws"
      unfolding tryBody by simp
    with create_appends [of oc dto activeUser s]
    have "\<exists>ws. writes (snd (create oc dto activeUser s))
                 = writes s @ UserUpdate (sub activeUser) (totalProjects activeUser + 1) # ws"
      by auto
    then have first: "\<exists>ws. performed s (snd (create oc dto activeUser s))
                 = UserUpdate (sub activeUser) (totalProjects activeUser + 1) # ws"
      by (auto simp add: performed_def)
    have success: "create oc dto activeUser s =
                 (Inr \<lparr>message = msgCreated, data = (newId oc, newDocument dto)\<rparr>,
                  s\<lparr>users := (users s)(sub activeUser \<mapsto> totalProjects activeUser + 1),
                    projects := (projects s)(newId oc \<mapsto> newDocument dto),
                    writes := writes s @
                      [UserUpdate (sub activeUser) (totalProjects activeUser + 1),
                       ProjectInsert (newId oc) (newDocument dto)]\<rparr>)"
      if "writeFault oc = None \<and> projects s (newId oc) = None \<and> populateFault oc = None"
      using that unfolding create_def tryBody by simp
    from first success
    show "(\<exists>ws. performed s (snd (create oc dto activeUser s))
                    = UserUpdate (sub activeUser) (totalProjects activeUser + 1) # ws)
          \<and> (writeFault oc = None \<and> projects s (newId oc) = None \<and> populateFault oc = None
               \<longrightarrow>
               create oc dto activeUser s =
                 (Inr \<lparr>message = msgCreated, data = (newId oc, newDocument dto)\<rparr>,
                  s\<lparr>users := (users s)(sub activeUser \<mapsto> totalProjects activeUser + 1),
                    projects := (projects s)(newId oc \<mapsto> newDocument dto),
                    writes := writes s @
                      [UserUpdate (sub activeUser) (totalProjects activeUser + 1),
                       ProjectInsert (newId oc) (newDocument dto)]\<rparr>))"
      by blast
  qed
  have example: ?example
  proof (intro impI, elim conjE)
    assume standard: "baseRole activeUser = STANDARD_USER"
      and eleven: "totalProjects activeUser = 11"
      and ok: "reserveFault oc = None" "writeFault oc = None"
        "projects s (newId oc) = None" "populateFault oc = None"
    have under: "\<not> (\<exists>c. maxProjects (baseRole activeUser) = Some c
                          \<and> totalProjects activeUser + 1 > c)"
      using standard eleven by (simp add: MAX_STANDARD_SUBSCRIBER_PROJECTS_def)
    from admitted under ok
    have first: "create oc dto activeUser s =
                 (Inr \<lparr>message = msgCreated, data = (newId oc, newDocument dto)\<rparr>,
                  s\<lparr>users := (users s)(sub activeUser \<mapsto> totalProjects activeUser + 1),
                    projects := (projects s)(newId oc \<mapsto> newDocument dto),
                    writes := writes s @
                      [UserUpdate (sub activeUser) (totalProjects activeUser + 1),
                       ProjectInsert (newId oc) (newDocument dto)]\<rparr>)"
      by blast
    have again: "fst (create oc' dto (activeUser\<lparr>totalProjects := 12\<rparr>) s')
                   = Inl (PaymentRequiredException msgUpgrade)" for oc' s'
      using rejected [of "activeUser\<lparr>totalProjects := 12\<rparr>" oc' s'] standard
      by (simp add: MAX_STANDARD_SUBSCRIBER_PROJECTS_def)
    show "(\<exists>r. fst (create oc dto activeUser s) = Inr r)
          \<and> users (snd (create oc dto activeUser s)) (sub activeUser) = Some 12
          \<and> (\<forall>oc'. fst (create oc' dto (activeUser\<lparr>totalProjects := 12\<rparr>)
                           (snd (create oc dto activeUser s)))
                     = Inl (PaymentRequiredException msgUpgrade))"
      using again by (simp add: first eleven)
  qed
  from table exceeded admitted example show ?thesis by blast
qed

text \<open>
  The STANDARD user at 11 and then at 12, on the example store.
\<close>

theorem root_quota_reservation_witness:
  "projectType (rootRequest ''Beds'') = Some ROOT
   \<and> \<not> truthy (rootParentId (rootRequest ''Beds''))
   \<and> \<not> truthy (subParentId (rootRequest ''Beds''))
   \<and> baseRole (member STANDARD_USER 11) = STANDARD_USER
   \<and> totalProjects (member STANDARD_USER 11) = 11
   \<and> projects (gardenStore 0 11) (newId (noFaults ''n7'')) = None
   \<and> create (noFaults ''n7'') (rootRequest ''Beds'') (member STANDARD_USER 11)
        (gardenStore 0 11)
       = (Inr \<lparr>message = msgCreated, data = (''n7'', newDocument (rootRequest ''Beds''))\<rparr>,
          (gardenStore 0 11)
            \<lparr>users := (users (gardenStore 0 11))(''u1'' \<mapsto> 12),
             projects := (projects (gardenStore 0 11))
                           (''n7'' \<mapsto> newDocument (rootRequest ''Beds'')),
             writes := [UserUpdate ''u1'' 12,
                        ProjectInsert ''n7'' (newDocument (rootRequest ''Beds''))]\<rparr>)
   \<and> users (snd (create (noFaults ''n7'') (rootRequest ''Beds'') (member STANDARD_USER 11)
                    (gardenStore 0 11))) ''u1'' = Some 12
   \<and> maxProjects (baseRole (member STANDARD_USER 12)) = Some 12
   \<and> totalProjects (member STANDARD_USER 12) + 1 > 12
   \<and> create (noFaults ''n8'') (rootRequest ''Beds'') (member STANDARD_USER 12)
        (snd (create (noFaults ''n7'') (rootRequest ''Beds'') (member STANDARD_USER 11)
                (gardenStore 0 11)))
       = (Inl (PaymentRequiredException msgUpgrade),
          snd (create (noFaults ''n7'') (rootRequest ''Beds'') (member STANDARD_USER 11)
                 (gardenStore 0 11)))"
proof -
  have h1: "projectType (rootRequest ''Beds'') = Some ROOT"
    and h2: "\<not> truthy (rootParentId (rootRequest ''Beds''))"
    and h3: "\<not> truthy (subParentId (rootRequest ''Beds''))"
    and h4: "baseRole (member STANDARD_USER 11) = STANDARD_USER"
    and h5: "totalProjects (member STANDARD_USER 11) = 11"
    and h6: "projects (gardenStore 0 11) (newId (noFaults ''n7'')) = None"
    and h7: "reserveFault (noFaults ''n7'') = None" "writeFault (noFaults ''n7'') = None"
      "populateFault (noFaults ''n7'') = None" "newId (noFaults ''n7'') = ''n7''"
    and h8: "sub (member STANDARD_USER 11) = ''u1''" "writes (gardenStore 0 11) = []"
    and h9: "maxProjects (baseRole (member STANDARD_USER 12)) = Some 12"
    and h10: "totalProjects (member STANDARD_USER 12) + 1 > 12"
    by (simp_all add: example_defs MAX_STANDARD_SUBSCRIBER_PROJECTS_def)
  show ?thesis
    using root_quota_reservation
        [OF h1 h2 h3, of "member STANDARD_USER 11" "noFaults ''n7''" "gardenStore 0 11"]
      root_quota_reservation
        [OF h1 h2 h3, of "member STANDARD_USER 12" "noFaults ''n8''"
           "snd (create (noFaults ''n7'') (rootRequest ''Beds'') (member STANDARD_USER 11)
                   (gardenStore 0 11))"]
      h1 h2 h3 h4 h5 h6 h7 h8 h9 h10
    by (simp add: MAX_STANDARD_SUBSCRIBER_PROJECTS_def)
qed

text \<open>
  C9. For a request whose \<^verbatim>\<open>projectType\<close> is not the explicit \<^verbatim>\<open>ROOT\<close> (in
  particular an absent one), whatever the collaborators do, the users' counters after
  the request are those before it and the request performs no user update, neither on
  reservation nor in a rollback branch; and a request with an absent \<^verbatim>\<open>projectType\<close>
  and no parent reference is still rejected by the ceiling check when
  \<open>totalProjects + 1\<close> exceeds the tier's ceiling.
\<close>

theorem counter_untouched_unless_explicit_root:
  assumes "projectType dto \<noteq> Some ROOT"
  shows "users (snd (create oc dto activeUser s)) = users s
       \<and> filter isUserUpdate (performed s (snd (create oc dto activeUser s))) = []
       \<and> (projectType dto = None
            \<and> \<not> truthy (rootParentId dto) \<and> \<not> truthy (subParentId dto)
            \<and> (baseRole activeUser = GUEST_USER \<and> totalProjects activeUser + 1 > 3
                \<or> baseRole activeUser = STANDARD_USER \<and> totalProjects activeUser + 1 > 12)
          \<longrightarrow> create oc dto activeUser s = (Inl (PaymentRequiredException msgUpgrade), s))"
proof -
  have store: "snd (create oc dto activeUser s) = snd (createTry oc dto activeUser s)"
    using assms
    by (cases "createTry oc dto activeUser s")
       (simp add: create_def createCatch_not_root split: sum.splits)
  have ceiling: "create oc dto activeUser s = (Inl (PaymentRequiredException msgUpgrade), s)"
    if "projectType dto = None" "\<not> truthy (rootParentId dto)" "\<not> truthy (subParentId dto)"
      "baseRole activeUser = GUEST_USER \<and> totalProjects activeUser + 1 > 3
        \<or> baseRole activeUser = STANDARD_USER \<and> totalProjects activeUser + 1 > 12"
    using that
    by (auto simp add: create_def createTry_def createCatch_def preflight_def quotaCheck_def
          MAX_GUEST_SUBSCRIBER_PROJECTS_def MAX_STANDARD_SUBSCRIBER_PROJECTS_def)
  show ?thesis
    using assms ceiling
    by (simp add: store createTry_not_root_users createTry_not_root_writes)
qed

text \<open>
  A guest at 3 with an absent \<^verbatim>\<open>projectType\<close> is rejected by the ceiling; a guest at
  2 gets the project created and the counter stays 2.
\<close>

theorem counter_untouched_unless_explicit_root_witness:
  "projectType (blankRequest\<lparr>title := Some ''Beds''\<rparr>) = None
   \<and> \<not> truthy (rootParentId (blankRequest\<lparr>title := Some ''Beds''\<rparr>))
   \<and> \<not> truthy (subParentId (blankRequest\<lparr>title := Some ''Beds''\<rparr>))
   \<and> baseRole (member GUEST_USER 3) = GUEST_USER
   \<and> totalProjects (member GUEST_USER 3) + 1 > 3
   \<and> users (snd (create (noFaults ''n6'') (blankRequest\<lparr>title := Some ''Beds''\<rparr>)
                    (member GUEST_USER 3) (gardenStore 0 3)))
       = users (gardenStore 0 3)
   \<and> filter isUserUpdate
        (performed (gardenStore 0 3)
           (snd (create (noFaults ''n6'') (blankRequest\<lparr>title := Some ''Beds''\<rparr>)
                   (member GUEST_USER 3) (gardenStore 0 3)))) = []
   \<and> create (noFaults ''n6'') (blankRequest\<lparr>title := Some ''Beds''\<rparr>)
        (member GUEST_USER 3) (gardenStore 0 3)
       = (Inl (PaymentRequiredException msgUpgrade), gardenStore 0 3)
   \<and> projectType (blankRequest\<lparr>title := Some ''Herbs''\<rparr>) \<noteq> Some ROOT
   \<and> fst (create (noFaults ''n6'') (blankRequest\<lparr>title := Some ''Herbs''\<rparr>)
            (member GUEST_USER 2) (gardenStore 0 2))
       = Inr \<lparr>message = msgCreated,
              data = (''n6'', newDocument (blankRequest\<lparr>title := Some ''Herbs''\<rparr>))\<rparr>
   \<and> users (snd (create (noFaults ''n6'') (blankRequest\<lparr>title := Some ''Herbs''\<rparr>)
                    (member GUEST_USER 2) (gardenStore 0 2)))
       = users (gardenStore 0 2)"
proof -
  have h1: "projectType (blankRequest\<lparr>title := Some ''Beds''\<rparr>) \<noteq> Some ROOT"
    and h2: "projectType (blankRequest\<lparr>title := Some ''Beds''\<rparr>) = None"
    and h3: "\<not> truthy (rootParentId (blankRequest\<lparr>title := Some ''Beds''\<rparr>))"
    and h4: "\<not> truthy (subParentId (blankRequest\<lparr>title := Some ''Beds''\<rparr>))"
    and h5: "baseRole (member GUEST_USER 3) = GUEST_USER"
    and h6: "totalProjects (member GUEST_USER 3) + 1 > 3"
    and h7: "projectType (blankRequest\<lparr>title := Some ''Herbs''\<rparr>) \<noteq> Some ROOT"
    by (simp_all add: example_defs)
  have created: "fst (create (noFaults ''n6'') (blankRequest\<lparr>title := Some ''Herbs''\<rparr>)
            (member GUEST_USER 2) (gardenStore 0 2))
       = Inr \<lparr>message = msgCreated,
              data = (''n6'', newDocument (blankRequest\<lparr>title := Some ''Herbs''\<rparr>))\<rparr>"
    by (simp add: service_defs example_defs)
  show ?thesis
    using counter_untouched_unless_explicit_root
        [OF h1, of "noFaults ''n6''" "member GUEST_USER 3" "gardenStore 0 3"]
      counter_untouched_unless_explicit_root
        [OF h7, of "noFaults ''n6''" "member GUEST_USER 2" "gardenStore 0 2"]
      h2 h3 h4 h5 h6 h7 created
    by (simp add: performed_refl)
qed


subsection \<open>Structural checks\<close>

text \<open>
  C6. A request whose \<^verbatim>\<open>projectType\<close> is absent or \<^verbatim>\<open>ROOT\<close> and that supplies
  \<^verbatim>\<open>rootParentId\<close> or \<^verbatim>\<open>subParentId\<close> is rejected with the bad-request error of the
  first structural check, and the state (user counters, project collection, write log)
  is exactly the one before the request.
\<close>

theorem root_request_with_parent_rejected:
  assumes "projectType dto = None \<or> projectType dto = Some ROOT"
    and "truthy (rootParentId dto) \<or> truthy (subParentId dto)"
  shows "create oc dto activeUser s = (Inl (BadRequestException msgRootWithParent), s)"
  using assms by (simp add: create_def createTry_def createCatch_def preflight_def)

text \<open>
  A request without \<^verbatim>\<open>projectType\<close> that names a sub-parent.
\<close>

theorem root_request_with_parent_rejected_witness:
  "projectType (blankRequest\<lparr>title := Some ''Beds'', subParentId := Some ''p1''\<rparr>) = None
   \<and> truthy (subParentId (blankRequest\<lparr>title := Some ''Beds'', subParentId := Some ''p1''\<rparr>))
   \<and> create (noFaults ''n1'') (blankRequest\<lparr>title := Some ''Beds'', subParentId := Some ''p1''\<rparr>)
        (member STANDARD_USER 5) (gardenStore 0 5)
      = (Inl (BadRequestException msgRootWithParent), gardenStore 0 5)"
  using root_request_with_parent_rejected
    [of "blankRequest\<lparr>title := Some ''Beds'', subParentId := Some ''p1''\<rparr>"
        "noFaults ''n1''" "member STANDARD_USER 5" "gardenStore 0 5"]
  by (simp add: blankRequest_def)


subsection \<open>The parent of a sub-project\<close>

text \<open>
  A request reaches the parent lookup only if it passed the structural checks (with a
  \<^verbatim>\<open>rootParentId\<close> that means \<^verbatim>\<open>projectType\<close> is \<^verbatim>\<open>SUB_PROJECT\<close>) and the ceiling
  check. The test of line 132 reads a property the schema does not declare, so it is
  never true: the branch that sets the advisory or flips the parent is never entered,
  no request changes a stored project (\<open>create_keeps_stored_projects\<close>), every
  returned message is the default one (\<open>create_never_advises\<close>), and every parent
  that is found is reused as the new document.
\<close>

text \<open>
  C2, as the claim states it, fails: the document inserted for a sub-project of a
  \<open>LEAFY\<close> parent with two todos is not the document built from the request. The
  request has no \<^verbatim>\<open>description\<close>; the inserted document has the parent's.
\<close>

theorem reused_parent_not_built_from_request:
  "projects (gardenStore 2 0) ''p1'' = Some leafyParent
   \<and> projectTypeBehavior leafyParent = Some LEAFY
   \<and> tasks (gardenStore 2 0) ''p1'' = 2
   \<and> projects (snd (create (noFaults ''n1'') (subRequest ''Beds'' ''p1'')
                       (member GUEST_USER 0) (gardenStore 2 0))) ''n1''
       = Some (assignEntries (subRequest ''Beds'' ''p1'') leafyParent)
   \<and> description (subRequest ''Beds'' ''p1'') = None
   \<and> description (assignEntries (subRequest ''Beds'' ''p1'') leafyParent) = Some ''Vegetables''
   \<and> description (newDocument (subRequest ''Beds'' ''p1'')) = None
   \<and> assignEntries (subRequest ''Beds'' ''p1'') leafyParent
       \<noteq> newDocument (subRequest ''Beds'' ''p1'')"
  by (simp add: service_defs example_defs readProjectTypeBehavior_def)

text \<open>
  C2, amended. When the parent lookup finds a stored project, whatever its behaviour
  and its todos (a \<open>LEAFY\<close> parent with todos included), the stored parent is not
  changed and no document is saved in place. When the insert fails the state is the one
  before the request. When it succeeds, the one write of the request inserts, under the
  identity the store assigns (never one in use, so not the parent's), the loaded parent
  with every property the request has overwritten: \<^verbatim>\<open>projectType\<close> and
  \<^verbatim>\<open>rootParentId\<close> are the request's, each other creatable property is the request's
  if the request has it and the parent's otherwise, and \<^verbatim>\<open>isEnabled\<close>, the two
  counters and \<^verbatim>\<open>progressStage\<close> are the parent's.
\<close>

theorem found_parent_reused_as_new_document:
  assumes "projectType dto = Some SUB_PROJECT" "rootParentId dto = Some pid" "pid \<noteq> []"
    "quotaCheck activeUser = None" "findByIdFault oc = None"
    "projects s pid = Some parent"
  shows "projects (snd (create oc dto activeUser s)) pid = Some parent
       \<and> filter isProjectSave (performed s (snd (create oc dto activeUser s))) = []
       \<and> (writeFault oc \<noteq> None \<or> projects s (newId oc) \<noteq> None \<longrightarrow>
            snd (create oc dto activeUser s) = s)
       \<and> (writeFault oc = None \<and> projects s (newId oc) = None \<longrightarrow>
            (\<exists>d. performed s (snd (create oc dto activeUser s)) = [ProjectInsert (newId oc) d]
               \<and> projects (snd (create oc dto activeUser s))
                   = (projects s)(newId oc \<mapsto> d)
               \<and> d = assignEntries dto parent
               \<and> projectType d = Some SUB_PROJECT
               \<and> rootParentId d = Some pid
               \<and> title d = (case title dto of None \<Rightarrow> title parent | Some v \<Rightarrow> Some v)
               \<and> description d
                   = (case description dto of None \<Rightarrow> description parent | Some v \<Rightarrow> Some v)
               \<and> stages d = (case stages dto of None \<Rightarrow> stages parent | Some v \<Rightarrow> Some v)
               \<and> iconsId d = (case iconsId dto of None \<Rightarrow> iconsId parent | Some v \<Rightarrow> Some v)
               \<and> dependsOn d
                   = (case dependsOn dto of None \<Rightarrow> dependsOn parent | Some v \<Rightarrow> Some v)
               \<and> subParentId d
                   = (case subParentId dto of None \<Rightarrow> subParentId parent | Some v \<Rightarrow> Some v)
               \<and> startAt d = (case startAt dto of None \<Rightarrow> startAt parent | Some v \<Rightarrow> Some v)
               \<and> endAt d = (case endAt dto of None \<Rightarrow> endAt parent | Some v \<Rightarrow> Some v)
               \<and> isEnabled d = isEnabled parent
               \<and> totalSubProjects d = totalSubProjects parent
               \<and> totalProjectTodos d = totalProjectTodos parent
               \<and> progressStage d = progressStage parent))"
proof -
  have "projectType dto \<noteq> Some ROOT" using assms(1) by simp
  then have store: "snd (create oc dto activeUser s) = snd (createTry oc dto activeUser s)"
    by (rule create_not_root_store)
  have fields: "title (assignEntries dto parent)
        = (case title dto of None \<Rightarrow> title parent | Some v \<Rightarrow> Some v)"
    "description (assignEntries dto parent)
        = (case description dto of None \<Rightarrow> description parent | Some v \<Rightarrow> Some v)"
    "stages (assignEntries dto parent)
        = (case stages dto of None \<Rightarrow> stages parent | Some v \<Rightarrow> Some v)"
    "iconsId (assignEntries dto parent)
        = (case iconsId dto of None \<Rightarrow> iconsId parent | Some v \<Rightarrow> Some v)"
    "dependsOn (assignEntries dto parent)
        = (case dependsOn dto of None \<Rightarrow> dependsOn parent | Some v \<Rightarrow> Some v)"
    "subParentId (assignEntries dto parent)
        = (case subParentId dto of None \<Rightarrow> subParentId parent | Some v \<Rightarrow> Some v)"
    "startAt (assignEntries dto parent)
        = (case startAt dto of None \<Rightarrow> startAt parent | Some v \<Rightarrow> Some v)"
    "endAt (assignEntries dto parent)
        = (case endAt dto of None \<Rightarrow> endAt parent | Some v \<Rightarrow> Some v)"
    by (simp_all add: assignEntries_def split: option.splits)
  have given: "projectType (assignEntries dto parent) = Some SUB_PROJECT"
    "rootParentId (assignEntries dto parent) = Some pid"
    using assms(1,2) by (simp_all add: assignEntries_def)
  have kept: "isEnabled (assignEntries dto parent) = isEnabled parent"
    "totalSubProjects (assignEntries dto parent) = totalSubProjects parent"
    "totalProjectTodos (assignEntries dto parent) = totalProjectTodos parent"
    "progressStage (assignEntries dto parent) = progressStage parent"
    by (simp_all add: assignEntries_def)
  show ?thesis
    unfolding store createTry_found [OF assms]
    using assms(6) fields given kept by (auto simp add: performed_def)
qed

text \<open>
  The amended statement on the example store, the parent being \<open>LEAFY\<close> with two
  todos: the inserted document has the request's title and the parent's description.
\<close>

theorem found_parent_reused_as_new_document_witness:
  "projectType (subRequest ''Beds'' ''p1'') = Some SUB_PROJECT
   \<and> rootParentId (subRequest ''Beds'' ''p1'') = Some ''p1''
   \<and> quotaCheck (member GUEST_USER 0) = None
   \<and> findByIdFault (noFaults ''n1'') = None
   \<and> projects (gardenStore 2 0) ''p1'' = Some leafyParent
   \<and> projectTypeBehavior leafyParent = Some LEAFY
   \<and> tasks (gardenStore 2 0) ''p1'' = 2
   \<and> writeFault (noFaults ''n1'') = None
   \<and> projects (gardenStore 2 0) (newId (noFaults ''n1'')) = None
   \<and> projects (snd (create (noFaults ''n1'') (subRequest ''Beds'' ''p1'')
                       (member GUEST_USER 0) (gardenStore 2 0))) ''p1''
       = Some leafyParent
   \<and> (\<exists>d. performed (gardenStore 2 0)
              (snd (create (noFaults ''n1'') (subRequest ''Beds'' ''p1'')
                      (member GUEST_USER 0) (gardenStore 2 0)))
            = [ProjectInsert ''n1'' d]
          \<and> title d = Some ''Beds''
          \<and> projectType d = Some SUB_PROJECT
          \<and> rootParentId d = Some ''p1''
          \<and> description d = Some ''Vegetables'')"
proof -
  have h1: "projectType (subRequest ''Beds'' ''p1'') = Some SUB_PROJECT"
    and h2: "rootParentId (subRequest ''Beds'' ''p1'') = Some ''p1''"
    and h3: "''p1'' \<noteq> []"
    and h4: "quotaCheck (member GUEST_USER 0) = None"
    and h5: "findByIdFault (noFaults ''n1'') = None"
    and h6: "projects (gardenStore 2 0) ''p1'' = Some leafyParent"
    and h7: "projectTypeBehavior leafyParent = Some LEAFY"
    and h8: "tasks (gardenStore 2 0) ''p1'' = 2"
    and h9: "writeFault (noFaults ''n1'') = None"
    and h10: "projects (gardenStore 2 0) (newId (noFaults ''n1'')) = None"
    and h11: "newId (noFaults ''n1'') = ''n1''"
    and h12: "title (subRequest ''Beds'' ''p1'') = Some ''Beds''"
    and h13: "description (subRequest ''Beds'' ''p1'') = None"
    and h14: "description leafyParent = Some ''Vegetables''"
    by (simp_all add: example_defs quotaCheck_def MAX_GUEST_SUBSCRIBER_PROJECTS_def)
  from found_parent_reused_as_new_document [OF h1 h2 h3 h4 h5 h6] h9 h10
  have kept: "projects (snd (create (noFaults ''n1'') (subRequest ''Beds'' ''p1'')
                       (member GUEST_USER 0) (gardenStore 2 0))) ''p1'' = Some leafyParent"
    and "\<exists>d. performed (gardenStore 2 0)
              (snd (create (noFaults ''n1'') (subRequest ''Beds'' ''p1'')
                      (member GUEST_USER 0) (gardenStore 2 0)))
            = [ProjectInsert (newId (noFaults ''n1'')) d]
          \<and> projectType d = Some SUB_PROJECT
          \<and> rootParentId d = Some ''p1''
          \<and> title d = (case title (subRequest ''Beds'' ''p1'') of
                          None \<Rightarrow> title leafyParent | Some v \<Rightarrow> Some v)
          \<and> description d = (case description (subRequest ''Beds'' ''p1'') of
                          None \<Rightarrow> description leafyParent | Some v \<Rightarrow> Some v)"
    by blast+
  then have inserted: "\<exists>d. performed (gardenStore 2 0)
              (snd (create (noFaults ''n1'') (subRequest ''Beds'' ''p1'')
                      (member GUEST_USER 0) (gardenStore 2 0)))
            = [ProjectInsert ''n1'' d]
          \<and> title d = Some ''Beds''
          \<and> projectType d = Some SUB_PROJECT
          \<and> rootParentId d = Some ''p1''
          \<and> description d = Some ''Vegetables''"
    by (auto simp add: h11 h12 h13 h14)
  from kept inserted h1 h2 h4 h5 h6 h7 h8 h9 h10 show ?thesis by blast
qed

text \<open>
  C7. The claim: a \<open>LEAFY\<close> parent without todos is flipped to \<open>NORMAL\<close> and saved
  once. On the example store, the parent stored as \<open>LEAFY\<close> with no todo, the request
  returns with the default message, its only write is the insert of the new document,
  and the stored parent is the one before the request: lines 130 to 146 attempt the
  flip, and the test of line 132 fails on the undeclared property.
\<close>

theorem leafy_parent_without_tasks_not_flipped:
  "projects (gardenStore 0 1) ''p1'' = Some leafyParent
   \<and> projectTypeBehavior leafyParent = Some LEAFY
   \<and> tasks (gardenStore 0 1) ''p1'' = 0
   \<and> create (noFaults ''n3'') (subRequest ''Beds'' ''p1'') (member GUEST_USER 1)
        (gardenStore 0 1)
       = (Inr \<lparr>message = msgCreated,
               data = (''n3'', assignEntries (subRequest ''Beds'' ''p1'') leafyParent)\<rparr>,
          (gardenStore 0 1)
            \<lparr>projects := (projects (gardenStore 0 1))
                           (''n3'' \<mapsto> assignEntries (subRequest ''Beds'' ''p1'') leafyParent),
             writes := [ProjectInsert ''n3''
                          (assignEntries (subRequest ''Beds'' ''p1'') leafyParent)]\<rparr>)
   \<and> projects (snd (create (noFaults ''n3'') (subRequest ''Beds'' ''p1'')
                       (member GUEST_USER 1) (gardenStore 0 1))) ''p1''
       = Some leafyParent
   \<and> filter isProjectSave
        (performed (gardenStore 0 1)
           (snd (create (noFaults ''n3'') (subRequest ''Beds'' ''p1'')
                   (member GUEST_USER 1) (gardenStore 0 1)))) = []"
  by (simp add: service_defs example_defs readProjectTypeBehavior_def performed_def)

text \<open>
  C8. The claim: for a \<open>LEAFY\<close> parent with at least one todo the returned message is
  the reassignment advisory. On the example store, the parent stored as \<open>LEAFY\<close> with
  one todo, the stored parent stays as it was, and the request returns with the default
  message, which is not the advisory: the assignment of line 139 is never reached.
\<close>

theorem leafy_parent_with_tasks_not_advised:
  "projects (gardenStore 1 4) ''p1'' = Some leafyParent
   \<and> projectTypeBehavior leafyParent = Some LEAFY
   \<and> tasks (gardenStore 1 4) ''p1'' = 1
   \<and> fst (create (noFaults ''n2'') (subRequest ''Beds'' ''p1'') (member STANDARD_USER 4)
            (gardenStore 1 4))
       = Inr \<lparr>message = msgCreated,
              data = (''n2'', assignEntries (subRequest ''Beds'' ''p1'') leafyParent)\<rparr>
   \<and> msgCreated \<noteq> msgReassignTasks
   \<and> projects (snd (create (noFaults ''n2'') (subRequest ''Beds'' ''p1'')
                       (member STANDARD_USER 4) (gardenStore 1 4))) ''p1''
       = Some leafyParent"
  by (simp add: service_defs example_defs readProjectTypeBehavior_def
        msgCreated_def msgReassignTasks_def)



subsection \<open>Compensation\<close>

text \<open>
  C3. The claim: when the write fails with a schema validation error after the quota
  was reserved, the reservation is released and the request is rejected with a
  bad-request error. The branch that does so compares \<^verbatim>\<open>error.name\<close> with
  \<^verbatim>\<open>'Validations'\<close>; Mongoose names its validation error \<^verbatim>\<open>'ValidationError'\<close>. For
  a STANDARD user at 5 whose root project fails validation, the request ends in the
  default branch: internal server error, and the counter stays at 6.
\<close>

theorem validation_error_not_compensated:
  "create ((noFaults ''n1'')
             \<lparr>writeFault := Some (ErrorObject ''ValidationError'' None
                                     ''Project validation failed'' [])\<rparr>)
          (rootRequest ''Beds'') (member STANDARD_USER 5) (gardenStore 0 5)
     = (Inl (InternalServerErrorException msgServerFailed),
        (gardenStore 0 5)\<lparr>users := [''u1'' \<mapsto> 6], writes := [UserUpdate ''u1'' 6]\<rparr>)"
  by (simp add: service_defs example_defs)

text \<open>
  C4. When a \<^verbatim>\<open>ROOT\<close> request has reserved quota and the insert fails with a
  duplicate-key error (code 11000) on \<^verbatim>\<open>title\<close>, and the users service accepts the
  rollback, the request is rejected with a conflict error whose message names the field
  \<^verbatim>\<open>title\<close>; the request wrote the counter twice, to \<open>totalProjects + 1\<close> and back
  to \<open>totalProjects\<close>, so the users' counters are those before the request (the active
  user's \<^verbatim>\<open>totalProjects\<close> being the stored one), and the collection is unchanged.
\<close>

theorem duplicate_title_rolls_back_and_conflicts:
  assumes "projectType dto = Some ROOT" "\<not> truthy (rootParentId dto)"
    "\<not> truthy (subParentId dto)" "quotaCheck activeUser = None" "reserveFault oc = None"
    and dup: "writeFault oc = Some (ErrorObject n (Some 11000) m [(''title'', t)])"
    and name: "n \<noteq> ''Validations''"
    and rollback: "rollbackFault oc = None"
    and sync: "users s (sub activeUser) = Some (totalProjects activeUser)"
  shows "fst (create oc dto activeUser s)
           = Inl (ConflictException ''Duplicate value for field: title'')
       \<and> users (snd (create oc dto activeUser s)) = users s
       \<and> projects (snd (create oc dto activeUser s)) = projects s
       \<and> performed s (snd (create oc dto activeUser s))
           = [UserUpdate (sub activeUser) (totalProjects activeUser + 1),
              UserUpdate (sub activeUser) (totalProjects activeUser)]"
proof -
  have same: "(users s)(sub activeUser \<mapsto> totalProjects activeUser) = users s"
    using sync by (rule map_upd_triv)
  show ?thesis
    unfolding create_def createTry_root [OF assms(1-5) refl]
    using assms(1) dup name rollback
    by (simp add: createCatch_def updateTotalProjects_def userService_update_def
          autoGenerateDuplicateMessage_def performed_def same)
qed

text \<open>
  A STANDARD user at 5 whose root project has a title already in use.
\<close>

theorem duplicate_title_rolls_back_and_conflicts_witness:
  "projectType (rootRequest ''Beds'') = Some ROOT
   \<and> \<not> truthy (rootParentId (rootRequest ''Beds''))
   \<and> \<not> truthy (subParentId (rootRequest ''Beds''))
   \<and> quotaCheck (member STANDARD_USER 5) = None
   \<and> reserveFault ((noFaults ''n5'')\<lparr>writeFault := Some (duplicateTitle ''Beds'')\<rparr>) = None
   \<and> writeFault ((noFaults ''n5'')\<lparr>writeFault := Some (duplicateTitle ''Beds'')\<rparr>)
       = Some (ErrorObject ''MongoServerError'' (Some 11000) ''E11000 duplicate key error''
                 [(''title'', ''Beds'')])
   \<and> rollbackFault ((noFaults ''n5'')\<lparr>writeFault := Some (duplicateTitle ''Beds'')\<rparr>) = None
   \<and> users (gardenStore 0 5) (sub (member STANDARD_USER 5)) = Some 5
   \<and> fst (create ((noFaults ''n5'')\<lparr>writeFault := Some (duplicateTitle ''Beds'')\<rparr>)
            (rootRequest ''Beds'') (member STANDARD_USER 5) (gardenStore 0 5))
       = Inl (ConflictException ''Duplicate value for field: title'')
   \<and> users (snd (create ((noFaults ''n5'')\<lparr>writeFault := Some (duplicateTitle ''Beds'')\<rparr>)
                    (rootRequest ''Beds'') (member STANDARD_USER 5) (gardenStore 0 5)))
       = users (gardenStore 0 5)
   \<and> performed (gardenStore 0 5)
        (snd (create ((noFaults ''n5'')\<lparr>writeFault := Some (duplicateTitle ''Beds'')\<rparr>)
                (rootRequest ''Beds'') (member STANDARD_USER 5) (gardenStore 0 5)))
       = [UserUpdate ''u1'' 6, UserUpdate ''u1'' 5]"
proof -
  let ?oc = "(noFaults ''n5'')\<lparr>writeFault := Some (duplicateTitle ''Beds'')\<rparr>"
  have h1: "projectType (rootRequest ''Beds'') = Some ROOT"
    and h2: "\<not> truthy (rootParentId (rootRequest ''Beds''))"
    and h3: "\<not> truthy (subParentId (rootRequest ''Beds''))"
    and h4: "quotaCheck (member STANDARD_USER 5) = None"
    and h5: "reserveFault ?oc = None"
    and h6: "writeFault ?oc
              = Some (ErrorObject ''MongoServerError'' (Some 11000)
                        ''E11000 duplicate key error'' [(''title'', ''Beds'')])"
    and h7: "''MongoServerError'' \<noteq> ''Validations''"
    and h8: "rollbackFault ?oc = None"
    and h9: "users (gardenStore 0 5) (sub (member STANDARD_USER 5))
              = Some (totalProjects (member STANDARD_USER 5))"
    and h10: "sub (member STANDARD_USER 5) = ''u1''"
    and h11: "totalProjects (member STANDARD_USER 5) = 5"
    by (simp_all add: example_defs duplicateTitle_def quotaCheck_def
          MAX_STANDARD_SUBSCRIBER_PROJECTS_def)
  show ?thesis
    using duplicate_title_rolls_back_and_conflicts [OF h1 h2 h3 h4 h5 h6 h7 h8 h9]
      h1 h2 h3 h4 h5 h6 h8 h9 h10 h11
    by simp
qed

end
